theory Spec2Isabelle
  imports Main "HOL-Library.Sublist"
begin

section \<open>Strings: the functions of Go's \<open>strings\<close> and \<open>fmt\<close> packages that main.go calls\<close>

text \<open>
  A Go \<open>string\<close> is a sequence of bytes; it is modelled as a \<open>string\<close> (a list of
  \<open>char\<close>, one per byte). \<open>+\<close> on Go strings is \<open>@\<close>.
\<close>

definition HasPrefix :: "string \<Rightarrow> string \<Rightarrow> bool" where
  \<comment> \<open>\<open>len(s) >= len(prefix) && s[:len(prefix)] == prefix\<close>\<close>
  "HasPrefix s pre = (length pre \<le> length s \<and> take (length pre) s = pre)"

definition HasSuffix :: "string \<Rightarrow> string \<Rightarrow> bool" where
  \<comment> \<open>\<open>len(s) >= len(suffix) && s[len(s)-len(suffix):] == suffix\<close>\<close>
  "HasSuffix s suf =
     (length suf \<le> length s \<and> drop (length s - length suf) s = suf)"

definition TrimSuffix :: "string \<Rightarrow> string \<Rightarrow> string" where
  \<comment> \<open>\<open>if HasSuffix(s, suffix) { return s[:len(s)-len(suffix)] }; return s\<close>\<close>
  "TrimSuffix s suf =
     (if HasSuffix s suf then take (length s - length suf) s else s)"

text \<open>
  \<open>strings.Split(s, sep)\<close> for a one-byte separator: the pieces of \<open>s\<close> between
  the occurrences of the separator, one more piece than there are separators
  (so the empty string gives one empty piece). \<open>cur\<close> is the piece being read.
\<close>

fun SplitFrom :: "char \<Rightarrow> string \<Rightarrow> string \<Rightarrow> string list" where
  "SplitFrom sep cur [] = [cur]"
| "SplitFrom sep cur (c # cs) =
     (if c = sep then cur # SplitFrom sep [] cs else SplitFrom sep (cur @ [c]) cs)"

definition Split :: "string \<Rightarrow> char \<Rightarrow> string list" where
  "Split s sep = SplitFrom sep [] s"

text \<open>\<open>strings.Join(elems, sep)\<close>.\<close>

fun Join :: "string list \<Rightarrow> string \<Rightarrow> string" where
  "Join [] sep = []"
| "Join [e] sep = e"
| "Join (e # es) sep = e @ sep @ Join es sep"

text \<open>The verb \<open>%d\<close> of \<open>fmt.Sprintf\<close> on a non-negative \<open>int\<close>: its decimal digits.\<close>

definition digit :: "nat \<Rightarrow> char" where
  "digit d = ''0123456789'' ! (d mod 10)"

function Itoa :: "nat \<Rightarrow> string" where
  "Itoa n = (if n < 10 then [digit n] else Itoa (n div 10) @ [digit (n mod 10)])"
  by pat_completeness auto
termination
  by (relation "measure id") auto

declare Itoa.simps [simp del]

section \<open>The line scanner: \<open>bufio.Scanner\<close> with its default split function\<close>

text \<open>
  \<open>bufio.NewScanner(r)\<close> splits with \<open>ScanLines\<close> and holds a token of at most
  \<open>MaxScanTokenSize\<close> bytes in its buffer. \<open>Scan\<close> yields the bytes before each
  newline, with one trailing carriage return dropped; at the end of the input a last
  line without a newline is yielded when it is not empty. When the buffer is full
  (\<open>MaxScanTokenSize\<close> bytes read from the start of the line) and holds no newline,
  \<open>Scan\<close> sets \<open>ErrTooLong\<close> and returns false, there and on every later call.
  \<open>ScanFrom cur data\<close> is the list of the tokens for which \<open>Scan\<close> returns true,
  \<open>cur\<close> being the bytes of the current line read so far.
\<close>

definition MaxScanTokenSize :: nat where
  "MaxScanTokenSize = 64 * 1024"

definition newline :: char where
  "newline = CHR ''\<newline>''"

definition dropCR :: "string \<Rightarrow> string" where
  \<comment> \<open>\<open>if len(data) > 0 && data[len(data)-1] == '\r' { return data[0 : len(data)-1] }\<close>\<close>
  "dropCR data = (if data \<noteq> [] \<and> last data = CHR 0x0D then butlast data else data)"

fun ScanFrom :: "string \<Rightarrow> string \<Rightarrow> string list" where
  "ScanFrom cur [] =
     (if cur = [] then []
      else if MaxScanTokenSize \<le> length cur then []
      else [dropCR cur])"
| "ScanFrom cur (c # cs) =
     (if c = newline
      then (if MaxScanTokenSize \<le> length cur then [] else dropCR cur # ScanFrom [] cs)
      else ScanFrom (cur @ [c]) cs)"

definition ScanLines :: "string \<Rightarrow> string list" where
  "ScanLines output = ScanFrom [] output"

section \<open>The track catalog\<close>

record TrackInfo =
  Index :: string
  Layout :: string
  Language :: string
  Title :: string

text \<open>
  Lines 72 to 89 of \<open>extractTrackInfo\<close>: the loop over the scanner's lines, appending
  to \<open>tracks\<close>. \<open>parts[k]\<close> is read only under the guard on \<open>len(parts)\<close>.
\<close>

fun scanLoop :: "string list \<Rightarrow> TrackInfo list \<Rightarrow> TrackInfo list" where
  "scanLoop [] tracks = tracks"
| "scanLoop (text # rest) tracks =
     (let parts = Split text (CHR ''|'') in
      if 3 \<le> length parts then
        (let track = \<lparr>Index = parts ! 0, Layout = parts ! 1, Language = parts ! 2, Title = ''''\<rparr>;
             track = (if 3 < length parts then track\<lparr>Title := parts ! 3\<rparr> else track)
         in scanLoop rest (tracks @ [track]))
      else scanLoop rest tracks)"

definition parseTracks :: "string \<Rightarrow> TrackInfo list" where
  "parseTracks output = scanLoop (ScanLines output) []"

section \<open>The environment: file system, external commands, standard output\<close>

text \<open>
  The file system maps a path to the file there. \<open>os.Stat\<close> returns no error for a path
  that exists and \<open>ENOENT\<close> for one that does not; \<open>os.Remove\<close> fails with \<open>ENOENT\<close> on a
  missing path and with \<open>EACCES\<close> on a file that may not be removed, and removes the file
  otherwise.
\<close>

datatype errno = ENOENT | EACCES

datatype node = Node (content: string) (removable: bool)

type_synonym fs = "string \<rightharpoonup> node"

definition osStat :: "fs \<Rightarrow> string \<Rightarrow> errno option" where
  "osStat d name = (case d name of None \<Rightarrow> Some ENOENT | Some n \<Rightarrow> None)"

definition IsNotExist :: "errno option \<Rightarrow> bool" where
  "IsNotExist err = (err = Some ENOENT)"

definition osRemove :: "fs \<Rightarrow> string \<Rightarrow> errno option \<times> fs" where
  "osRemove d name =
     (case d name of
        None \<Rightarrow> (Some ENOENT, d)
      | Some n \<Rightarrow> if removable n then (None, d(name := None)) else (Some EACCES, d))"

text \<open>
  The external programs are parameters of the model. \<open>ffprobe\<close> is run with
  \<open>CombinedOutput\<close>: it gives an error (it could not be launched, or it exited non-zero)
  or none, and the bytes it wrote to standard output and standard error. \<open>ffmpeg\<close> is
  run with \<open>Start\<close> and \<open>Wait\<close> (or \<open>Run\<close>, which is both): it gives the error of
  \<open>Start\<close>, the error of \<open>Wait\<close>, its standard error, and the bytes it wrote to its
  output file (the last argument of both invocations in main.go), if it wrote it.
  An invocation is modelled by its result: an engine that never exits is outside the
  model, and an engine writes no file but its output file.
\<close>

record probe_result =
  probeErr :: "string option"
  combinedOutput :: string

record ffmpeg_result =
  startErr :: "string option"
  waitErr :: "string option"
  stderrText :: string
  wrote :: "string option"

record env =
  ffprobe :: "string list \<Rightarrow> fs \<Rightarrow> probe_result"
  ffmpeg :: "string list \<Rightarrow> fs \<Rightarrow> ffmpeg_result"

datatype event = Exec string "string list" | Remove string

text \<open>
  The state of a run: the disk, what was printed (one entry per call of a print
  function), the commands launched and the deletions attempted, in order, and the
  counter of the \<open>sync.WaitGroup\<close>.
\<close>

record world =
  disk :: fs
  stdout :: "string list"
  events :: "event list"
  wg :: int

definition Printf :: "world \<Rightarrow> string \<Rightarrow> world" where
  "Printf w s = w\<lparr>stdout := stdout w @ [s]\<rparr>"

definition Println :: "world \<Rightarrow> string \<Rightarrow> world" where
  "Println w s = w\<lparr>stdout := stdout w @ [s @ ''\<newline>'']\<rparr>"

text \<open>
  The errors main.go makes, named as the specification names them, and the text of
  each (\<open>err.Error()\<close>): \<open>NotFound\<close> and \<open>ToolInvocationError\<close> are the values of
  \<open>fmt.Errorf\<close> in \<open>extractTrackInfo\<close> and \<open>mergeTracks\<close>, \<open>PathError\<close> is the error of
  \<open>os.Remove\<close>.
\<close>

datatype tool = Ffprobe | Ffmpeg

datatype error =
    NotFound string
  | ToolInvocationError tool string string
  | PathError string string errno

fun errnoText :: "errno \<Rightarrow> string" where
  "errnoText ENOENT = ''no such file or directory''"
| "errnoText EACCES = ''permission denied''"

fun Error :: "error \<Rightarrow> string" where
  "Error (NotFound file) = ''file does not exist: '' @ file"
| "Error (ToolInvocationError Ffprobe err output) =
     ''ffprobe failed with error: '' @ err @ ''\<newline>Output: '' @ output"
| "Error (ToolInvocationError Ffmpeg err stderr) =
     ''ffmpeg command failed: '' @ err @ ''\<newline>stderr:\<newline>'' @ stderr"
| "Error (PathError op path e) = op @ '' '' @ path @ '': '' @ errnoText e"

text \<open>
  Launching \<open>ffmpeg\<close>: the launch is recorded; when the process started, the output file
  it wrote (if any) is on the disk afterwards.
\<close>

definition execFfmpeg :: "env \<Rightarrow> string list \<Rightarrow> world \<Rightarrow> ffmpeg_result \<times> world" where
  "execFfmpeg E args w =
     (let r = ffmpeg E args (disk w);
          w1 = w\<lparr>events := events w @ [Exec ''ffmpeg'' args]\<rparr>
      in (r, case startErr r of
               Some e \<Rightarrow> w1
             | None \<Rightarrow>
                 (case wrote r of
                    None \<Rightarrow> w1
                  | Some bytes \<Rightarrow> w1\<lparr>disk := (disk w1)(last args \<mapsto> Node bytes True)\<rparr>)))"

definition runErr :: "ffmpeg_result \<Rightarrow> string option" where
  \<comment> \<open>the error of \<open>cmd.Run()\<close>: that of \<open>Start\<close>, else that of \<open>Wait\<close>\<close>
  "runErr r = (case startErr r of Some e \<Rightarrow> Some e | None \<Rightarrow> waitErr r)"

section \<open>The stages of main.go\<close>

definition extractTrackInfo ::
  "env \<Rightarrow> string \<Rightarrow> world \<Rightarrow> (error + TrackInfo list) \<times> world" where
  "extractTrackInfo E file w =
     (if IsNotExist (osStat (disk w) file) then (Inl (NotFound file), w)
      else
        (let args = [''-loglevel'', ''error'', ''-select_streams'', ''a'',
                     ''-show_entries'', ''stream=index,channel_layout:stream_tags=language,title'',
                     ''-of'', ''compact=p=0:nk=1'', file];
             r = ffprobe E args (disk w);
             w1 = w\<lparr>events := events w @ [Exec ''ffprobe'' args]\<rparr>
         in case probeErr r of
              Some err \<Rightarrow> (Inl (ToolInvocationError Ffprobe err (combinedOutput r)), w1)
            | None \<Rightarrow> (Inr (parseTracks (combinedOutput r)), w1)))"

text \<open>
  \<open>processTrack\<close>. The deferred \<open>wg.Done()\<close> runs on every return, so it is applied to
  the result of the body; it decrements the counter, which is positive whenever \<open>main\<close>
  runs a worker (on a zero counter \<open>Done\<close> panics). \<open>cmd.StderrPipe()\<close>, whose error
  the source discards, is taken to succeed. The goroutine that forwards the engine's
  standard error is modelled as having printed every line when \<open>Wait\<close> returns.
\<close>

definition processTrack :: "env \<Rightarrow> string \<Rightarrow> TrackInfo \<Rightarrow> world \<Rightarrow> world" where
  "processTrack E inputFile track w =
     (let af = (if HasPrefix (Layout track) ''7.1''
                then ''volume=1.5, pan=stereo|FL=FL+0.707*FC+0.5*BL+0.3*SL+0.5*LFE|FR=FR+0.707*FC+0.5*BR+0.3*SR+0.5*LFE''
                else ''volume=1.5, pan=stereo|FL=FL+0.707*FC+0.707*BL+0.5*LFE|FR=FR+0.707*FC+0.707*BR+0.5*LFE'');
          enhancedFile = TrimSuffix inputFile ''.mkv'' @ ''_track'' @ Index track @ ''_enhanced.opus'';
          w' =
            (if osStat (disk w) enhancedFile = None
             then Printf w (''Enhanced track '' @ Index track @ '' already exists, skipping processing\<newline>'')
             else
               (let args = [''-i'', inputFile,
                            ''-map'', ''0:'' @ Index track,
                            ''-af'', af,
                            ''-acodec'', ''libopus'', ''-b:a'', ''320k'',
                            ''-vbr'', ''on'',
                            ''-compression_level'', ''9'',
                            ''-frame_duration'', ''20'',
                            ''-application'', ''audio'',
                            ''-metadata:s:a'', ''language='' @ Language track,
                            ''-metadata:s:a'', ''title=2.1 Enhanced'',
                            ''-y'', enhancedFile];
                    (r, w1) = execFfmpeg E args w
                in case startErr r of
                     Some err \<Rightarrow>
                       Printf w1 (''Error starting ffmpeg for track '' @ Index track @ '': '' @ err @ ''\<newline>'')
                   | None \<Rightarrow>
                       (let w2 = w1\<lparr>stdout := stdout w1 @
                                   map (\<lambda>text. ''FFmpeg Output: '' @ text @ ''\<newline>'') (ScanLines (stderrText r))\<rparr>
                        in case waitErr r of
                             Some err \<Rightarrow>
                               Printf w2 (''FFmpeg command for track '' @ Index track @ '' failed: '' @ err @ ''\<newline>'')
                           | None \<Rightarrow> w2)))
      in w'\<lparr>wg := wg w' - 1\<rparr>)"

text \<open>\<open>mergeTracks\<close>: the two loops that build \<open>args\<close>, then the invocation.\<close>

fun inputsLoop :: "string \<Rightarrow> TrackInfo list \<Rightarrow> string list \<Rightarrow> string list" where
  "inputsLoop inputFile [] args = args"
| "inputsLoop inputFile (track # rest) args =
     (let enhancedFile = TrimSuffix inputFile ''.mkv'' @ ''_track'' @ Index track @ ''_enhanced.opus''
      in inputsLoop inputFile rest (args @ [''-i'', enhancedFile]))"

fun mapsLoop :: "TrackInfo list \<Rightarrow> nat \<Rightarrow> string list \<Rightarrow> string list" where
  "mapsLoop [] i args = args"
| "mapsLoop (track # rest) i args =
     mapsLoop rest (i + 1)
       ((args @ [''-map'', ''0:a:'' @ Itoa i, ''-c:a'', ''copy''])
             @ [''-map'', Itoa (1 + i) @ '':a'', ''-c:a'', ''copy''])"

definition mergeArgs :: "string \<Rightarrow> string \<Rightarrow> TrackInfo list \<Rightarrow> string list" where
  "mergeArgs inputFile outputFile tracks =
     (let args = [''-i'', inputFile];
          args = inputsLoop inputFile tracks args;
          args = args @ [''-map'', ''0:v''];
          args = args @ [''-map'', ''0:s?''];
          args = mapsLoop tracks 0 args;
          args = args @ [''-c:v'', ''copy'', ''-c:s'', ''copy'', ''-y'', outputFile]
      in args)"

definition mergeTracks ::
  "env \<Rightarrow> string \<Rightarrow> string \<Rightarrow> TrackInfo list \<Rightarrow> world \<Rightarrow> error option \<times> world" where
  "mergeTracks E inputFile outputFile tracks w =
     (let args = mergeArgs inputFile outputFile tracks;
          w1 = Println w (''ffmpeg '' @ Join args '' '');
          (r, w2) = execFfmpeg E args w1
      in case runErr r of
           Some err \<Rightarrow> (Some (ToolInvocationError Ffmpeg err (stderrText r)), w2)
         | None \<Rightarrow> (None, w2))"

fun removeTemporaryFiles :: "string \<Rightarrow> TrackInfo list \<Rightarrow> world \<Rightarrow> error option \<times> world" where
  "removeTemporaryFiles inputFile [] w = (None, w)"
| "removeTemporaryFiles inputFile (track # rest) w =
     (let enhancedFile = TrimSuffix inputFile ''.mkv'' @ ''_track'' @ Index track @ ''_enhanced.opus'';
          (err, d) = osRemove (disk w) enhancedFile;
          w1 = w\<lparr>disk := d, events := events w @ [Remove enhancedFile]\<rparr>
      in case err of
           Some e \<Rightarrow>
             (Some (PathError ''remove'' enhancedFile e),
              Printf w1 (''Failed to delete temporary file '' @ enhancedFile @ '': ''
                         @ Error (PathError ''remove'' enhancedFile e) @ ''\<newline>''))
         | None \<Rightarrow>
             removeTemporaryFiles inputFile rest
               (Printf w1 (''Temporary file '' @ enhancedFile @ '' removed successfully.\<newline>'')))"

text \<open>
  The fan-out of \<open>main\<close>: \<open>wg.Add(1)\<close> and a worker per track. The workers are
  goroutines; the model runs each to its end, in catalog order, before the next.
\<close>

fun fanOut :: "env \<Rightarrow> string \<Rightarrow> TrackInfo list \<Rightarrow> world \<Rightarrow> world" where
  "fanOut E inputFile [] w = w"
| "fanOut E inputFile (track # rest) w =
     fanOut E inputFile rest (processTrack E inputFile track (w\<lparr>wg := wg w + 1\<rparr>))"

text \<open>
  \<open>main\<close> on the arguments \<open>os.Args\<close>: the exit status and the final state, or \<open>None\<close>
  when \<open>wg.Wait()\<close> never returns (the counter is not zero once every worker is done).
\<close>

definition main :: "env \<Rightarrow> string list \<Rightarrow> world \<Rightarrow> (nat \<times> world) option" where
  "main E Args w =
     (if length Args < 2 then Some (1, Println w ''Usage: go run script.go <input.mkv>'')
      else
        (let inputFile = Args ! 1;
             outputFile = TrimSuffix inputFile ''.mkv'' @ ''_enhanced.mkv''
         in case extractTrackInfo E inputFile w of
              (Inl err, w1) \<Rightarrow> Some (1, Println w1 (''Error extracting track info: '' @ Error err))
            | (Inr trackInfos, w1) \<Rightarrow>
                (let w2 = fanOut E inputFile trackInfos (w1\<lparr>wg := 0\<rparr>) in
                 if wg w2 \<noteq> 0 then None
                 else
                   (case mergeTracks E inputFile outputFile trackInfos w2 of
                      (Some err, w3) \<Rightarrow> Some (1, Println w3 (''Error merging tracks: '' @ Error err))
                    | (None, w3) \<Rightarrow>
                        (let (err, w4) = removeTemporaryFiles inputFile trackInfos w3
                         in Some (0, Println w4 (''Enhanced MKV generated: '' @ outputFile)))))))"

section \<open>Notions of the specification\<close>

text \<open>
  The lines of an output as the specification reads them: the bytes between newlines,
  a last line without a newline counting when it is not empty. No length limit.
\<close>

fun linesFrom :: "string \<Rightarrow> string \<Rightarrow> string list" where
  "linesFrom cur [] = (if cur = [] then [] else [cur])"
| "linesFrom cur (c # cs) =
     (if c = newline then cur # linesFrom [] cs else linesFrom (cur @ [c]) cs)"

definition textLines :: "string \<Rightarrow> string list" where
  "textLines output = linesFrom [] output"

text \<open>The fields of a line (its carriage return, if any, is not part of the line).\<close>

definition lineFields :: "string \<Rightarrow> string list" where
  "lineFields line = Split (dropCR line) (CHR ''|'')"

text \<open>The descriptor of a row of at least three fields; the title defaults to empty.\<close>

definition descriptor :: "string list \<Rightarrow> TrackInfo" where
  "descriptor parts =
     \<lparr>Index = parts ! 0, Layout = parts ! 1, Language = parts ! 2,
      Title = (if 3 < length parts then parts ! 3 else [])\<rparr>"

text \<open>The well-formed rows of an output: the field lists of its lines with at least 3 fields.\<close>

definition wellFormedRows :: "string \<Rightarrow> string list list" where
  "wellFormedRows output =
     filter (\<lambda>parts. 3 \<le> length parts) (map lineFields (textLines output))"

text \<open>Every line of the output is shorter than the scanner's buffer.\<close>

definition linesFit :: "string \<Rightarrow> bool" where
  "linesFit output = list_all (\<lambda>line. length line < MaxScanTokenSize) (textLines output)"


text \<open>
  The transcode invocation of a track with a given filter graph and output file:
  input path, stream selection, filter graph, the fixed codec parameters, the metadata
  tags, forced overwrite, output path.
\<close>

definition transcodeInvocation ::
  "string \<Rightarrow> TrackInfo \<Rightarrow> string \<Rightarrow> string \<Rightarrow> string list" where
  "transcodeInvocation inputFile track filterGraph output =
     [''-i'', inputFile, ''-map'', ''0:'' @ Index track, ''-af'', filterGraph,
      ''-acodec'', ''libopus'', ''-b:a'', ''320k'', ''-vbr'', ''on'',
      ''-compression_level'', ''9'', ''-frame_duration'', ''20'',
      ''-application'', ''audio'',
      ''-metadata:s:a'', ''language='' @ Language track,
      ''-metadata:s:a'', ''title=2.1 Enhanced'',
      ''-y'', output]"

section \<open>Names for the local values of the stages\<close>

text \<open>
  The values of the local variables \<open>enhancedFile\<close>, \<open>af\<close> and of the command line of
  \<open>processTrack\<close>, and the lines it prints. The lemmas below show that the stages
  compute them.
\<close>

definition enhancedFile :: "string \<Rightarrow> TrackInfo \<Rightarrow> string" where
  "enhancedFile inputFile track =
     TrimSuffix inputFile ''.mkv'' @ ''_track'' @ Index track @ ''_enhanced.opus''"

definition af :: "TrackInfo \<Rightarrow> string" where
  "af track =
     (if HasPrefix (Layout track) ''7.1''
      then ''volume=1.5, pan=stereo|FL=FL+0.707*FC+0.5*BL+0.3*SL+0.5*LFE|FR=FR+0.707*FC+0.5*BR+0.3*SR+0.5*LFE''
      else ''volume=1.5, pan=stereo|FL=FL+0.707*FC+0.707*BL+0.5*LFE|FR=FR+0.707*FC+0.707*BR+0.5*LFE'')"

definition workerArgs :: "string \<Rightarrow> TrackInfo \<Rightarrow> string list" where
  "workerArgs inputFile track =
     transcodeInvocation inputFile track (af track) (enhancedFile inputFile track)"

definition skipMessage :: "TrackInfo \<Rightarrow> string" where
  "skipMessage track =
     ''Enhanced track '' @ Index track @ '' already exists, skipping processing\<newline>''"

definition startFailedMessage :: "TrackInfo \<Rightarrow> string \<Rightarrow> string" where
  "startFailedMessage track err =
     ''Error starting ffmpeg for track '' @ Index track @ '': '' @ err @ ''\<newline>''"

definition waitFailedMessage :: "TrackInfo \<Rightarrow> string \<Rightarrow> string" where
  "waitFailedMessage track err =
     ''FFmpeg command for track '' @ Index track @ '' failed: '' @ err @ ''\<newline>''"

definition forwarded :: "string \<Rightarrow> string list" where
  "forwarded stderr =
     map (\<lambda>text. ''FFmpeg Output: '' @ text @ ''\<newline>'') (ScanLines stderr)"

definition probeArgs :: "string \<Rightarrow> string list" where
  "probeArgs file =
     [''-loglevel'', ''error'', ''-select_streams'', ''a'',
      ''-show_entries'', ''stream=index,channel_layout:stream_tags=language,title'',
      ''-of'', ''compact=p=0:nk=1'', file]"

definition removedMessage :: "string \<Rightarrow> string" where
  "removedMessage file = ''Temporary file '' @ file @ '' removed successfully.\<newline>''"

definition removeFailedMessage :: "string \<Rightarrow> errno \<Rightarrow> string" where
  "removeFailedMessage file e =
     ''Failed to delete temporary file '' @ file @ '': ''
       @ Error (PathError ''remove'' file e) @ ''\<newline>''"



section \<open>Example inputs\<close>

text \<open>
  Tracks, disks, states and engines on which the properties below are evaluated.
\<close>

definition probeOutput :: string where
  "probeOutput =
     ''1|5.1(side)|eng|Surround'' @ [CHR 0x0D] @ ''\<newline>2|7.1|jpn\<newline>bad|x\<newline>\<newline>3|stereo||''"

definition track51 :: TrackInfo where
  "track51 = \<lparr>Index = ''1'', Layout = ''5.1'', Language = ''eng'', Title = ''Main''\<rparr>"

definition track71 :: TrackInfo where
  "track71 = \<lparr>Index = ''2'', Layout = ''7.1'', Language = ''jpn'', Title = []\<rparr>"

definition trackWide :: TrackInfo where
  "trackWide = \<lparr>Index = ''3'', Layout = ''7.1(wide)'', Language = [], Title = []\<rparr>"

definition movieDisk :: fs where
  "movieDisk = [''m.mkv'' \<mapsto> Node ''movie'' True]"

definition world0 :: world where
  "world0 = \<lparr>disk = movieDisk, stdout = [], events = [], wg = 0\<rparr>"

definition probeOk :: "string list \<Rightarrow> fs \<Rightarrow> probe_result" where
  "probeOk args d = \<lparr>probeErr = None, combinedOutput = ''1|5.1|eng|Main\<newline>2|7.1|jpn\<newline>''\<rparr>"

definition ffmpegOk :: "string list \<Rightarrow> fs \<Rightarrow> ffmpeg_result" where
  "ffmpegOk args d =
     \<lparr>startErr = None, waitErr = None, stderrText = ''size=1kB\<newline>'', wrote = Some ''data''\<rparr>"

definition ffmpegFailed :: "string \<Rightarrow> ffmpeg_result" where
  "ffmpegFailed diagnostic =
     \<lparr>startErr = None, waitErr = Some ''exit status 1'', stderrText = diagnostic, wrote = None\<rparr>"


definition engineOk :: env where
  "engineOk = \<lparr>ffprobe = probeOk, ffmpeg = ffmpegOk\<rparr>"

definition engineMuxFails :: env where
  "engineMuxFails =
     \<lparr>ffprobe = probeOk,
      ffmpeg = (\<lambda>args d. if last args = ''m_enhanced.mkv''
                          then ffmpegFailed ''Conversion failed!\<newline>''
                          else ffmpegOk args d)\<rparr>"



definition trackNoLayout :: TrackInfo where
  "trackNoLayout = \<lparr>Index = ''4'', Layout = [], Language = ''und'', Title = []\<rparr>"

definition sideCarDisk :: fs where
  "sideCarDisk =
     [''m.mkv'' \<mapsto> Node ''movie'' True,
      ''m_track1_enhanced.opus'' \<mapsto> Node ''first'' True,
      ''m_track2_enhanced.opus'' \<mapsto> Node ''second'' False,
      ''m_track3_enhanced.opus'' \<mapsto> Node ''third'' True]"

definition world3 :: world where
  "world3 = \<lparr>disk = sideCarDisk, stdout = [], events = [], wg = 0\<rparr>"

definition lockedWorld :: world where
  "lockedWorld = world0\<lparr>disk := movieDisk(''m_track1_enhanced.opus'' \<mapsto> Node ''old'' False)\<rparr>"


section \<open>Properties\<close>

subsection \<open>Auxiliary lemmas\<close>

lemma ScanFrom_takeWhile:
  "ScanFrom cur data =
     map dropCR (takeWhile (\<lambda>line. length line < MaxScanTokenSize) (linesFrom cur data))"
  by (induction data arbitrary: cur) (auto simp: not_le)

lemma ScanFrom_append:
  "newline \<notin> set xs \<Longrightarrow> ScanFrom cur (xs @ ys) = ScanFrom (cur @ xs) ys"
  by (induction xs arbitrary: cur) auto

lemma linesFrom_append:
  "newline \<notin> set xs \<Longrightarrow> linesFrom cur (xs @ ys) = linesFrom (cur @ xs) ys"
  by (induction xs arbitrary: cur) auto

lemma SplitFrom_no_sep:
  "sep \<notin> set xs \<Longrightarrow> SplitFrom sep cur xs = [cur @ xs]"
  by (induction xs arbitrary: cur) auto

lemma scanLoop_closed:
  "scanLoop ls tracks =
     tracks @ map descriptor
       (filter (\<lambda>parts. 3 \<le> length parts) (map (\<lambda>l. Split l (CHR ''|'')) ls))"
  by (induction ls arbitrary: tracks) (auto simp: Let_def descriptor_def)

lemma HasPrefix_iff: "HasPrefix s p \<longleftrightarrow> (\<exists>rest. s = p @ rest)"
proof
  assume "HasPrefix s p"
  then have "s = p @ drop (length p) s"
    by (metis HasPrefix_def append_take_drop_id)
  then show "\<exists>rest. s = p @ rest" ..
next
  assume "\<exists>rest. s = p @ rest"
  then show "HasPrefix s p" by (auto simp: HasPrefix_def)
qed


lemma TrimSuffix_append [simp]: "TrimSuffix (stem @ suf) suf = stem"
  by (simp add: TrimSuffix_def HasSuffix_def)


lemma inputsLoop_closed:
  "inputsLoop inputFile tracks args =
     args @ concat (map (\<lambda>t. [''-i'', TrimSuffix inputFile ''.mkv'' @ ''_track'' @ Index t @ ''_enhanced.opus'']) tracks)"
  by (induction tracks arbitrary: args) (simp_all add: Let_def)

lemma mapsLoop_closed:
  "mapsLoop tracks i args =
     args @ concat (map (\<lambda>k. [''-map'', ''0:a:'' @ Itoa k, ''-c:a'', ''copy'',
                               ''-map'', Itoa (k + 1) @ '':a'', ''-c:a'', ''copy''])
                        [i ..< i + length tracks])"
proof (induction tracks arbitrary: i args)
  case Nil
  then show ?case by simp
next
  case (Cons t ts)
  have "[i ..< i + length (t # ts)] = i # [i + 1 ..< i + 1 + length ts]"
    by (simp add: upt_conv_Cons del: upt_Suc)
  then show ?case
    by (simp add: Cons.IH del: upt_Suc)
qed

lemma mergeArgs_closed:
  "mergeArgs inputFile outputFile tracks =
     [''-i'', inputFile]
     @ concat (map (\<lambda>t. [''-i'', TrimSuffix inputFile ''.mkv'' @ ''_track'' @ Index t @ ''_enhanced.opus'']) tracks)
     @ [''-map'', ''0:v'', ''-map'', ''0:s?'']
     @ concat (map (\<lambda>k. [''-map'', ''0:a:'' @ Itoa k, ''-c:a'', ''copy'',
                          ''-map'', Itoa (k + 1) @ '':a'', ''-c:a'', ''copy''])
                   [0 ..< length tracks])
     @ [''-c:v'', ''copy'', ''-c:s'', ''copy'', ''-y'', outputFile]"
  by (simp add: mergeArgs_def Let_def inputsLoop_closed mapsLoop_closed)

lemma worker_generic:
  "(let w' =
      (if osStat (disk w) p = None then Printf w m1
       else
         (let (r, w1) = execFfmpeg E args w
          in case startErr r of
               Some err \<Rightarrow> Printf w1 (m2 err)
             | None \<Rightarrow>
                 (let w2 = w1\<lparr>stdout := stdout w1 @ map f (ScanLines (stderrText r))\<rparr>
                  in case waitErr r of
                       Some err \<Rightarrow> Printf w2 (m3 err)
                     | None \<Rightarrow> w2)))
    in w'\<lparr>wg := wg w' - 1\<rparr>)
   =
   (if osStat (disk w) p = None
    then w\<lparr>stdout := stdout w @ [m1], wg := wg w - 1\<rparr>
    else
      (case startErr (ffmpeg E args (disk w)) of
         Some err \<Rightarrow>
           w\<lparr>stdout := stdout w @ [m2 err],
             events := events w @ [Exec ''ffmpeg'' args],
             wg := wg w - 1\<rparr>
       | None \<Rightarrow>
           w\<lparr>disk := (case wrote (ffmpeg E args (disk w)) of
                        None \<Rightarrow> disk w
                      | Some bytes \<Rightarrow> (disk w)(last args \<mapsto> Node bytes True)),
             stdout := stdout w @ map f (ScanLines (stderrText (ffmpeg E args (disk w))))
                        @ (case waitErr (ffmpeg E args (disk w)) of
                             Some err \<Rightarrow> [m3 err] | None \<Rightarrow> []),
             events := events w @ [Exec ''ffmpeg'' args],
             wg := wg w - 1\<rparr>))"
  by (simp add: Let_def Printf_def execFfmpeg_def split: option.splits)

lemma processTrack_unfold:
  "processTrack E inputFile track w =
   (if osStat (disk w) (enhancedFile inputFile track) = None
    then w\<lparr>stdout := stdout w @ [skipMessage track], wg := wg w - 1\<rparr>
    else
      (case startErr (ffmpeg E (workerArgs inputFile track) (disk w)) of
         Some err \<Rightarrow>
           w\<lparr>stdout := stdout w @ [startFailedMessage track err],
             events := events w @ [Exec ''ffmpeg'' (workerArgs inputFile track)],
             wg := wg w - 1\<rparr>
       | None \<Rightarrow>
           w\<lparr>disk := (case wrote (ffmpeg E (workerArgs inputFile track) (disk w)) of
                        None \<Rightarrow> disk w
                      | Some bytes \<Rightarrow> (disk w)(enhancedFile inputFile track \<mapsto> Node bytes True)),
             stdout := stdout w
                        @ forwarded (stderrText (ffmpeg E (workerArgs inputFile track) (disk w)))
                        @ (case waitErr (ffmpeg E (workerArgs inputFile track) (disk w)) of
                             Some err \<Rightarrow> [waitFailedMessage track err] | None \<Rightarrow> []),
             events := events w @ [Exec ''ffmpeg'' (workerArgs inputFile track)],
             wg := wg w - 1\<rparr>))"
  (is "_ = ?rhs")
proof -
  have l: "last (workerArgs inputFile track) = enhancedFile inputFile track"
    by (simp add: workerArgs_def transcodeInvocation_def)
  have "processTrack E inputFile track w =
    (let w' =
      (if osStat (disk w) (enhancedFile inputFile track) = None then Printf w (skipMessage track)
       else
         (let (r, w1) = execFfmpeg E (workerArgs inputFile track) w
          in case startErr r of
               Some err \<Rightarrow> Printf w1 (startFailedMessage track err)
             | None \<Rightarrow>
                 (let w2 = w1\<lparr>stdout := stdout w1 @ map (\<lambda>text. ''FFmpeg Output: '' @ text @ ''\<newline>'') (ScanLines (stderrText r))\<rparr>
                  in case waitErr r of
                       Some err \<Rightarrow> Printf w2 (waitFailedMessage track err)
                     | None \<Rightarrow> w2)))
    in w'\<lparr>wg := wg w' - 1\<rparr>)"
    unfolding processTrack_def enhancedFile_def workerArgs_def af_def
      transcodeInvocation_def skipMessage_def startFailedMessage_def waitFailedMessage_def Let_def
    by (rule refl)
  also have "\<dots> = ?rhs"
    unfolding worker_generic l forwarded_def by (rule refl)
  finally show ?thesis .
qed

lemma last_workerArgs: "last (workerArgs inputFile track) = enhancedFile inputFile track"
  by (simp add: workerArgs_def transcodeInvocation_def)

lemma last_mergeArgs: "last (mergeArgs inputFile outputFile tracks) = outputFile"
  by (simp add: mergeArgs_def Let_def)

lemma extractTrackInfo_unfold:
  "extractTrackInfo E file w =
     (if disk w file = None then (Inl (NotFound file), w)
      else
        (case probeErr (ffprobe E (probeArgs file) (disk w)) of
           Some err \<Rightarrow>
             (Inl (ToolInvocationError Ffprobe err
                     (combinedOutput (ffprobe E (probeArgs file) (disk w)))),
              w\<lparr>events := events w @ [Exec ''ffprobe'' (probeArgs file)]\<rparr>)
         | None \<Rightarrow>
             (Inr (parseTracks (combinedOutput (ffprobe E (probeArgs file) (disk w)))),
              w\<lparr>events := events w @ [Exec ''ffprobe'' (probeArgs file)]\<rparr>)))"
  unfolding extractTrackInfo_def probeArgs_def Let_def IsNotExist_def osStat_def
  by (simp split: option.splits)

lemma mergeTracks_unfold:
  "mergeTracks E inputFile outputFile tracks w =
     (map_option (\<lambda>err. ToolInvocationError Ffmpeg err
                     (stderrText (ffmpeg E (mergeArgs inputFile outputFile tracks) (disk w))))
        (runErr (ffmpeg E (mergeArgs inputFile outputFile tracks) (disk w))),
      w\<lparr>disk := (case startErr (ffmpeg E (mergeArgs inputFile outputFile tracks) (disk w)) of
                   Some e \<Rightarrow> disk w
                 | None \<Rightarrow>
                    (case wrote (ffmpeg E (mergeArgs inputFile outputFile tracks) (disk w)) of
                       None \<Rightarrow> disk w
                     | Some bytes \<Rightarrow> (disk w)(outputFile \<mapsto> Node bytes True))),
        stdout := stdout w @ [''ffmpeg '' @ Join (mergeArgs inputFile outputFile tracks) '' '' @ ''\<newline>''],
        events := events w @ [Exec ''ffmpeg'' (mergeArgs inputFile outputFile tracks)]\<rparr>)"
  by (simp add: mergeTracks_def Let_def Println_def execFfmpeg_def last_mergeArgs
      split: option.splits)

lemma removeTemporaryFiles_Cons:
  "removeTemporaryFiles inputFile (track # rest) w =
     (case fst (osRemove (disk w) (enhancedFile inputFile track)) of
        Some e \<Rightarrow>
          (Some (PathError ''remove'' (enhancedFile inputFile track) e),
           w\<lparr>disk := snd (osRemove (disk w) (enhancedFile inputFile track)),
             events := events w @ [Remove (enhancedFile inputFile track)],
             stdout := stdout w @ [removeFailedMessage (enhancedFile inputFile track) e]\<rparr>)
      | None \<Rightarrow>
          removeTemporaryFiles inputFile rest
            (w\<lparr>disk := snd (osRemove (disk w) (enhancedFile inputFile track)),
               events := events w @ [Remove (enhancedFile inputFile track)],
               stdout := stdout w @ [removedMessage (enhancedFile inputFile track)]\<rparr>))"
  by (simp add: enhancedFile_def removeFailedMessage_def removedMessage_def Let_def Printf_def
      split: option.splits prod.splits)

lemma wg_processTrack: "wg (processTrack E inputFile track w) = wg w - 1"
  by (simp add: processTrack_unfold split: option.splits)

lemma wg_fanOut: "wg (fanOut E inputFile tracks w) = wg w"
  by (induction tracks arbitrary: w) (simp_all add: wg_processTrack)


declare removeTemporaryFiles.simps(2) [simp del]

lemma enhancedFile_inj:
  "enhancedFile inputFile t = enhancedFile inputFile u \<longleftrightarrow> Index t = Index u"
  by (simp add: enhancedFile_def)

lemma osRemove_other:
  "p \<noteq> q \<Longrightarrow> fst (osRemove (snd (osRemove d q)) p) = fst (osRemove d p)"
  by (cases "d q"; cases "d p"; simp add: osRemove_def)

lemma osRemove_ok_disk:
  "fst (osRemove d q) = None \<Longrightarrow> snd (osRemove d q) = d(q := None)"
  by (simp add: osRemove_def split: option.splits if_splits)

lemma osRemove_failed_disk:
  "fst (osRemove d q) = Some e \<Longrightarrow> snd (osRemove d q) = d"
  by (simp add: osRemove_def split: option.splits if_splits)











lemma parse_probeOk:
  "parseTracks ''1|5.1|eng|Main\<newline>2|7.1|jpn\<newline>'' = [track51, track71]"
  by (simp add: parseTracks_def ScanLines_def newline_def MaxScanTokenSize_def dropCR_def
      Split_def track51_def track71_def)

lemma paths:
  "TrimSuffix ''m.mkv'' ''.mkv'' = ''m''"
  "enhancedFile ''m.mkv'' track51 = ''m_track1_enhanced.opus''"
  "enhancedFile ''m.mkv'' track71 = ''m_track2_enhanced.opus''"
  "enhancedFile ''m.mkv'' trackWide = ''m_track3_enhanced.opus''"
  by (simp_all add: enhancedFile_def TrimSuffix_def HasSuffix_def track51_def track71_def trackWide_def)

lemma extract_ok:
  "extractTrackInfo engineOk ''m.mkv'' world0 =
     (Inr [track51, track71], world0\<lparr>events := [Exec ''ffprobe'' (probeArgs ''m.mkv'')]\<rparr>)"
  by (simp add: extractTrackInfo_unfold engineOk_def probeOk_def world0_def movieDisk_def parse_probeOk)

lemma fst_mergeTracks:
  "fst (mergeTracks E inputFile outputFile tracks w) =
     map_option (\<lambda>err. ToolInvocationError Ffmpeg err
                    (stderrText (ffmpeg E (mergeArgs inputFile outputFile tracks) (disk w))))
       (runErr (ffmpeg E (mergeArgs inputFile outputFile tracks) (disk w)))"
  by (simp add: mergeTracks_unfold)

lemma events_mergeTracks:
  "events (snd (mergeTracks E inputFile outputFile tracks w)) =
     events w @ [Exec ''ffmpeg'' (mergeArgs inputFile outputFile tracks)]"
  by (simp add: mergeTracks_unfold)

lemma stdout_mergeTracks:
  "stdout (snd (mergeTracks E inputFile outputFile tracks w)) =
     stdout w @ [''ffmpeg '' @ Join (mergeArgs inputFile outputFile tracks) '' '' @ ''\<newline>'']"
  by (simp add: mergeTracks_unfold)

lemma disk_mergeTracks:
  "q \<noteq> outputFile \<Longrightarrow>
     disk (snd (mergeTracks E inputFile outputFile tracks w)) q = disk w q"
  by (simp add: mergeTracks_unfold split: option.splits)

lemma enhancedFile_not_output:
  "enhancedFile inputFile track \<noteq> TrimSuffix inputFile ''.mkv'' @ ''_enhanced.mkv''"
proof
  assume "enhancedFile inputFile track = TrimSuffix inputFile ''.mkv'' @ ''_enhanced.mkv''"
  then have "last (enhancedFile inputFile track) = last (TrimSuffix inputFile ''.mkv'' @ ''_enhanced.mkv'')"
    by simp
  then show False
    by (simp add: enhancedFile_def)
qed


lemma main_extract_failed:
  assumes "2 \<le> length Args" and "fst (extractTrackInfo E (Args ! 1) w) = Inl e"
  shows "main E Args w =
           Some (1, Println (snd (extractTrackInfo E (Args ! 1) w))
                      (''Error extracting track info: '' @ Error e))"
proof -
  obtain w1 where "extractTrackInfo E (Args ! 1) w = (Inl e, w1)"
    using assms(2) by (cases "extractTrackInfo E (Args ! 1) w") simp
  then show ?thesis
    using assms(1) by (simp add: main_def Let_def)
qed

lemma main_merge_failed:
  assumes "2 \<le> length Args" and "extractTrackInfo E (Args ! 1) w = (Inr tracks, w1)"
      and "mergeTracks E (Args ! 1) (TrimSuffix (Args ! 1) ''.mkv'' @ ''_enhanced.mkv'') tracks
             (fanOut E (Args ! 1) tracks (w1\<lparr>wg := 0\<rparr>)) = (Some e, w3)"
  shows "main E Args w = Some (1, Println w3 (''Error merging tracks: '' @ Error e))"
  using assms by (simp add: main_def Let_def wg_fanOut)

lemma main_merged:
  assumes "2 \<le> length Args" and "extractTrackInfo E (Args ! 1) w = (Inr tracks, w1)"
      and "mergeTracks E (Args ! 1) (TrimSuffix (Args ! 1) ''.mkv'' @ ''_enhanced.mkv'') tracks
             (fanOut E (Args ! 1) tracks (w1\<lparr>wg := 0\<rparr>)) = (None, w3)"
  shows "main E Args w =
           Some (0, Println (snd (removeTemporaryFiles (Args ! 1) tracks w3))
                      (''Enhanced MKV generated: ''
                         @ TrimSuffix (Args ! 1) ''.mkv'' @ ''_enhanced.mkv''))"
  using assms by (simp add: main_def Let_def wg_fanOut split: prod.splits)

lemma args1: "[''prog'', ''m.mkv''] ! 1 = ''m.mkv''" "2 \<le> length [''prog'', ''m.mkv'']"
  by simp_all

lemma world0_fields:
  "disk world0 = movieDisk" "stdout world0 = []" "events world0 = []" "wg world0 = 0"
  by (simp_all add: world0_def)

lemma movieDisk_at:
  "movieDisk ''m.mkv'' = Some (Node ''movie'' True)"
  "movieDisk ''m_track1_enhanced.opus'' = None"
  "movieDisk ''m_track2_enhanced.opus'' = None"
  by (simp_all add: movieDisk_def)

lemma lockedWorld_fields:
  "disk lockedWorld = movieDisk(''m_track1_enhanced.opus'' \<mapsto> Node ''old'' False)"
  "stdout lockedWorld = []" "events lockedWorld = []" "wg lockedWorld = 0"
  by (simp_all add: lockedWorld_def world0_def)

subsection \<open>The properties of the specification, C1 to C10\<close>

text \<open>
  C1. For every catalog, \<open>mergeTracks\<close> builds the argument sequence: input 0 is the
  original file; inputs 1 to N are the side-car files of the tracks, in catalog order;
  then the video stream and the optional subtitle streams of input 0 are mapped; then,
  for each position \<open>i\<close> of the catalog in order, audio stream \<open>i\<close> of input 0 with
  stream copy, immediately followed by the audio of input \<open>i + 1\<close> with stream copy;
  then the copy directives for video and subtitles, forced overwrite and the output
  path. \<open>mergeTracks\<close> launches \<open>ffmpeg\<close> once, with exactly these arguments. The
  statement is for every N, so for N = 0, 1 and 3.
\<close>

theorem C1_mergeTracks_order:
  "mergeArgs inputFile outputFile tracks =
     [''-i'', inputFile]
     @ concat (map (\<lambda>t. [''-i'', TrimSuffix inputFile ''.mkv'' @ ''_track'' @ Index t @ ''_enhanced.opus'']) tracks)
     @ [''-map'', ''0:v'', ''-map'', ''0:s?'']
     @ concat (map (\<lambda>i. [''-map'', ''0:a:'' @ Itoa i, ''-c:a'', ''copy'',
                          ''-map'', Itoa (i + 1) @ '':a'', ''-c:a'', ''copy''])
                   [0 ..< length tracks])
     @ [''-c:v'', ''copy'', ''-c:s'', ''copy'', ''-y'', outputFile] \<and>
   events (snd (mergeTracks E inputFile outputFile tracks w)) =
     events w @ [Exec ''ffmpeg'' (mergeArgs inputFile outputFile tracks)]"
  by (simp add: mergeArgs_closed mergeTracks_unfold)

text \<open>
  The argument sequences for catalogs of 0, 1 and 3 tracks.
\<close>

theorem C1_mergeTracks_order_witness:
  "mergeArgs ''m.mkv'' ''m_enhanced.mkv'' [] =
     [''-i'', ''m.mkv'', ''-map'', ''0:v'', ''-map'', ''0:s?'',
      ''-c:v'', ''copy'', ''-c:s'', ''copy'', ''-y'', ''m_enhanced.mkv''] \<and>
   mergeArgs ''m.mkv'' ''m_enhanced.mkv'' [track51] =
     [''-i'', ''m.mkv'', ''-i'', ''m_track1_enhanced.opus'', ''-map'', ''0:v'', ''-map'', ''0:s?'',
      ''-map'', ''0:a:0'', ''-c:a'', ''copy'', ''-map'', ''1:a'', ''-c:a'', ''copy'',
      ''-c:v'', ''copy'', ''-c:s'', ''copy'', ''-y'', ''m_enhanced.mkv''] \<and>
   mergeArgs ''m.mkv'' ''m_enhanced.mkv'' [track51, track71, trackWide] =
     [''-i'', ''m.mkv'', ''-i'', ''m_track1_enhanced.opus'', ''-i'', ''m_track2_enhanced.opus'',
      ''-i'', ''m_track3_enhanced.opus'', ''-map'', ''0:v'', ''-map'', ''0:s?'',
      ''-map'', ''0:a:0'', ''-c:a'', ''copy'', ''-map'', ''1:a'', ''-c:a'', ''copy'',
      ''-map'', ''0:a:1'', ''-c:a'', ''copy'', ''-map'', ''2:a'', ''-c:a'', ''copy'',
      ''-map'', ''0:a:2'', ''-c:a'', ''copy'', ''-map'', ''3:a'', ''-c:a'', ''copy'',
      ''-c:v'', ''copy'', ''-c:s'', ''copy'', ''-y'', ''m_enhanced.mkv'']"
proof -
  have t: "TrimSuffix ''m.mkv'' ''.mkv'' = ''m''"
    by (simp add: TrimSuffix_def HasSuffix_def)
  have u: "[0 ..< 3] = [0, Suc 0, Suc (Suc 0)]" "[0 ..< 1] = [0]"
    by (simp_all add: upt_rec)
  have d: "Itoa 0 = ''0''" "Itoa (Suc 0) = ''1''" "Itoa (Suc (Suc 0)) = ''2''"
    "Itoa (Suc (Suc (Suc 0))) = ''3''"
    by (simp_all add: Itoa.simps digit_def)
  show ?thesis
    using C1_mergeTracks_order [of "''m.mkv''" "''m_enhanced.mkv''" "[]"]
      C1_mergeTracks_order [of "''m.mkv''" "''m_enhanced.mkv''" "[track51]"]
      C1_mergeTracks_order [of "''m.mkv''" "''m_enhanced.mkv''" "[track51, track71, trackWide]"]
    by (simp add: t u d track51_def track71_def trackWide_def)
qed

text \<open>
  C2, as stated, fails at an output that holds a line of 65536 bytes: the scanner stops
  there, so the well-formed line after it yields no descriptor (one line with three
  fields, no descriptor returned).
\<close>

theorem C2_long_line_counterexample:
  "parseTracks (replicate 65536 (CHR ''a'') @ ''\<newline>0|5.1|eng\<newline>'') = [] \<and>
   wellFormedRows (replicate 65536 (CHR ''a'') @ ''\<newline>0|5.1|eng\<newline>'')
     = [[''0'', ''5.1'', ''eng'']]"
proof -
  have nl: "newline \<notin> set (replicate 65536 (CHR ''a''))"
    by (simp add: newline_def)
  have a: "ScanLines (replicate 65536 (CHR ''a'') @ ''\<newline>0|5.1|eng\<newline>'') = []"
    by (simp add: ScanLines_def ScanFrom_append [OF nl] MaxScanTokenSize_def newline_def)
  have b: "textLines (replicate 65536 (CHR ''a'') @ ''\<newline>0|5.1|eng\<newline>'')
             = [replicate 65536 (CHR ''a''), ''0|5.1|eng'']"
    by (simp add: textLines_def linesFrom_append [OF nl] newline_def)
  have c: "length (Split (dropCR (replicate 65536 (CHR ''a''))) (CHR ''|'')) = 1"
    by (simp add: Split_def dropCR_def SplitFrom_no_sep)
  show ?thesis
    using c by (simp add: parseTracks_def a wellFormedRows_def b lineFields_def Split_def dropCR_def)
qed

text \<open>
  C2, amended. For every inspection-tool output whose lines are all shorter than 65536
  bytes, the Extractor's parser returns, in input order, exactly one descriptor per
  line with at least 3 fields: field 0 is the index, field 1 the layout, field 2 the
  language, field 3 the title when it is present and the empty string otherwise. Lines
  with fewer than 3 fields are dropped, so an output with K well-formed lines yields
  exactly K descriptors.
\<close>

theorem C2_parseTracks:
  assumes "linesFit output"
  shows "parseTracks output = map descriptor (wellFormedRows output) \<and>
         length (parseTracks output) = length (wellFormedRows output)"
proof -
  have "\<forall>line \<in> set (textLines output). length line < MaxScanTokenSize"
    using assms by (simp add: linesFit_def list_all_iff)
  then have tw: "takeWhile (\<lambda>line. length line < MaxScanTokenSize) (textLines output)
                   = textLines output"
    by (simp only: takeWhile_eq_all_conv)
  have "ScanLines output = map dropCR (textLines output)"
    by (simp only: ScanLines_def ScanFrom_takeWhile tw [unfolded textLines_def] textLines_def)
  then have "parseTracks output = map descriptor (wellFormedRows output)"
    by (simp add: parseTracks_def scanLoop_closed wellFormedRows_def lineFields_def [abs_def] comp_def)
  then show ?thesis by simp
qed

text \<open>
  An output with a carriage return, a title, a row of two fields, an empty line and a
  last line without a newline: three descriptors.
\<close>

theorem C2_parseTracks_witness:
  "linesFit probeOutput \<and>
   wellFormedRows probeOutput =
     [[''1'', ''5.1(side)'', ''eng'', ''Surround''], [''2'', ''7.1'', ''jpn''], [''3'', ''stereo'', [], []]] \<and>
   parseTracks probeOutput =
     [\<lparr>Index = ''1'', Layout = ''5.1(side)'', Language = ''eng'', Title = ''Surround''\<rparr>,
      \<lparr>Index = ''2'', Layout = ''7.1'', Language = ''jpn'', Title = []\<rparr>,
      \<lparr>Index = ''3'', Layout = ''stereo'', Language = [], Title = []\<rparr>]"
proof -
  have h: "linesFit probeOutput"
    by (simp add: linesFit_def textLines_def probeOutput_def newline_def MaxScanTokenSize_def)
  have r: "wellFormedRows probeOutput =
     [[''1'', ''5.1(side)'', ''eng'', ''Surround''], [''2'', ''7.1'', ''jpn''], [''3'', ''stereo'', [], []]]"
    by (simp add: wellFormedRows_def textLines_def probeOutput_def newline_def lineFields_def
        Split_def dropCR_def)
  show ?thesis
    using h C2_parseTracks [OF h] by (simp add: r descriptor_def)
qed

text \<open>
  C3. The commands a Worker launches are a function of its input: none when the
  side-car exists, and otherwise one transcode invocation whose filter graph depends
  on the channel layout alone. When the layout begins with \<open>7.1\<close> it is the 7.1
  formula (FL=FL+0.707*FC+0.5*BL+0.3*SL+0.5*LFE and the symmetric FR) with volume 1.5;
  for every other layout, the empty one included, it is the default formula
  (FL=FL+0.707*FC+0.707*BL+0.5*LFE and the symmetric FR) with the same volume 1.5.
\<close>

theorem C3_filter_selection:
  "events (processTrack E inputFile track w) =
     (if osStat (disk w) (TrimSuffix inputFile ''.mkv'' @ ''_track'' @ Index track @ ''_enhanced.opus'') = None
      then events w
      else events w @ [Exec ''ffmpeg'' (transcodeInvocation inputFile track
             (if (\<exists>rest. Layout track = ''7.1'' @ rest)
              then ''volume=1.5, pan=stereo|FL=FL+0.707*FC+0.5*BL+0.3*SL+0.5*LFE|FR=FR+0.707*FC+0.5*BR+0.3*SR+0.5*LFE''
              else ''volume=1.5, pan=stereo|FL=FL+0.707*FC+0.707*BL+0.5*LFE|FR=FR+0.707*FC+0.707*BR+0.5*LFE'')
             (TrimSuffix inputFile ''.mkv'' @ ''_track'' @ Index track @ ''_enhanced.opus''))])"
proof -
  have a: "af track = (if (\<exists>rest. Layout track = ''7.1'' @ rest)
              then ''volume=1.5, pan=stereo|FL=FL+0.707*FC+0.5*BL+0.3*SL+0.5*LFE|FR=FR+0.707*FC+0.5*BR+0.3*SR+0.5*LFE''
              else ''volume=1.5, pan=stereo|FL=FL+0.707*FC+0.707*BL+0.5*LFE|FR=FR+0.707*FC+0.707*BR+0.5*LFE'')"
    unfolding af_def HasPrefix_iff by (rule refl)
  have "events (processTrack E inputFile track w) =
     (if osStat (disk w) (enhancedFile inputFile track) = None then events w
      else events w @ [Exec ''ffmpeg'' (workerArgs inputFile track)])"
    by (simp add: processTrack_unfold split: option.splits)
  then show ?thesis
    unfolding workerArgs_def a enhancedFile_def .
qed

text \<open>
  The layouts \<open>7.1(wide)\<close> and \<open>7.1\<close> select the 7.1 formula; \<open>5.1\<close> and the empty
  layout select the default formula.
\<close>

theorem C3_filter_selection_witness:
  "events (processTrack engineOk ''m.mkv'' trackWide world0) =
     [Exec ''ffmpeg'' (transcodeInvocation ''m.mkv'' trackWide
        ''volume=1.5, pan=stereo|FL=FL+0.707*FC+0.5*BL+0.3*SL+0.5*LFE|FR=FR+0.707*FC+0.5*BR+0.3*SR+0.5*LFE''
        ''m_track3_enhanced.opus'')] \<and>
   events (processTrack engineOk ''m.mkv'' track71 world0) =
     [Exec ''ffmpeg'' (transcodeInvocation ''m.mkv'' track71
        ''volume=1.5, pan=stereo|FL=FL+0.707*FC+0.5*BL+0.3*SL+0.5*LFE|FR=FR+0.707*FC+0.5*BR+0.3*SR+0.5*LFE''
        ''m_track2_enhanced.opus'')] \<and>
   events (processTrack engineOk ''m.mkv'' track51 world0) =
     [Exec ''ffmpeg'' (transcodeInvocation ''m.mkv'' track51
        ''volume=1.5, pan=stereo|FL=FL+0.707*FC+0.707*BL+0.5*LFE|FR=FR+0.707*FC+0.707*BR+0.5*LFE''
        ''m_track1_enhanced.opus'')] \<and>
   events (processTrack engineOk ''m.mkv'' trackNoLayout world0) =
     [Exec ''ffmpeg'' (transcodeInvocation ''m.mkv'' trackNoLayout
        ''volume=1.5, pan=stereo|FL=FL+0.707*FC+0.707*BL+0.5*LFE|FR=FR+0.707*FC+0.707*BR+0.5*LFE''
        ''m_track4_enhanced.opus'')]"
proof -
  have l: "Layout trackWide = ''7.1(wide)''" "Layout track71 = ''7.1''" "Layout track51 = ''5.1''"
    "Layout trackNoLayout = []"
    by (simp_all add: trackWide_def track71_def track51_def trackNoLayout_def)
  have i: "Index trackWide = ''3''" "Index track71 = ''2''" "Index track51 = ''1''"
    "Index trackNoLayout = ''4''"
    by (simp_all add: trackWide_def track71_def track51_def trackNoLayout_def)
  have s: "osStat (disk world0) ''m_track3_enhanced.opus'' \<noteq> None"
    "osStat (disk world0) ''m_track2_enhanced.opus'' \<noteq> None"
    "osStat (disk world0) ''m_track1_enhanced.opus'' \<noteq> None"
    "osStat (disk world0) ''m_track4_enhanced.opus'' \<noteq> None"
    by (simp_all add: osStat_def world0_def movieDisk_def)
  have e: "events world0 = []"
    by (simp add: world0_def)
  show ?thesis
    using C3_filter_selection [of engineOk "''m.mkv''" trackWide world0]
      C3_filter_selection [of engineOk "''m.mkv''" track71 world0]
      C3_filter_selection [of engineOk "''m.mkv''" track51 world0]
      C3_filter_selection [of engineOk "''m.mkv''" trackNoLayout world0]
    by (simp add: paths(1) l i s e)
qed

text \<open>
  C4. The Worker is idempotent. When the side-car path exists as the Worker starts,
  the Worker launches nothing, leaves the disk as it is, prints that it skips the track
  and returns (the result differs from the start only by that line and by the
  \<open>wg.Done()\<close>). Hence, when the side-car is present after a first call, a second call
  for the same track launches no command and changes no file. The counter of the wait
  group is positive when the Worker runs, as in \<open>main\<close>, which adds before it
  launches (\<open>Done\<close> on a zero counter is a panic in Go).
\<close>

theorem C4_worker_idempotent:
  "(0 < wg w \<and>
    osStat (disk w) (TrimSuffix inputFile ''.mkv'' @ ''_track'' @ Index track @ ''_enhanced.opus'') = None \<longrightarrow>
      processTrack E inputFile track w
        = w\<lparr>stdout := stdout w @ [skipMessage track], wg := wg w - 1\<rparr>) \<and>
   (1 < wg w \<and>
    osStat (disk (processTrack E inputFile track w))
       (TrimSuffix inputFile ''.mkv'' @ ''_track'' @ Index track @ ''_enhanced.opus'') = None \<longrightarrow>
      events (processTrack E inputFile track (processTrack E inputFile track w))
        = events (processTrack E inputFile track w) \<and>
      disk (processTrack E inputFile track (processTrack E inputFile track w))
        = disk (processTrack E inputFile track w) \<and>
      stdout (processTrack E inputFile track (processTrack E inputFile track w))
        = stdout (processTrack E inputFile track w) @ [skipMessage track])"
proof -
  have skip: "processTrack E inputFile track v
                = v\<lparr>stdout := stdout v @ [skipMessage track], wg := wg v - 1\<rparr>"
    if "osStat (disk v) (enhancedFile inputFile track) = None" for v
    using that by (simp add: processTrack_unfold)
  show ?thesis
    unfolding enhancedFile_def [symmetric]
    using skip [of w] skip [of "processTrack E inputFile track w"] by simp
qed

text \<open>
  A first call that transcodes and writes the side-car, then a second call that
  launches nothing; and a call on a disk that already holds the side-car.
\<close>

theorem C4_worker_idempotent_witness:
  "osStat (disk (processTrack engineOk ''m.mkv'' track51 (world0\<lparr>wg := 2\<rparr>)))
     ''m_track1_enhanced.opus'' = None \<and>
   events (processTrack engineOk ''m.mkv'' track51 (world0\<lparr>wg := 2\<rparr>))
     = [Exec ''ffmpeg'' (workerArgs ''m.mkv'' track51)] \<and>
   events (processTrack engineOk ''m.mkv'' track51
             (processTrack engineOk ''m.mkv'' track51 (world0\<lparr>wg := 2\<rparr>)))
     = [Exec ''ffmpeg'' (workerArgs ''m.mkv'' track51)] \<and>
   disk (processTrack engineOk ''m.mkv'' track51
           (processTrack engineOk ''m.mkv'' track51 (world0\<lparr>wg := 2\<rparr>)))
     = disk (processTrack engineOk ''m.mkv'' track51 (world0\<lparr>wg := 2\<rparr>)) \<and>
   processTrack engineOk ''m.mkv'' track51
       (world0\<lparr>disk := movieDisk(''m_track1_enhanced.opus'' \<mapsto> Node ''old'' True), wg := 1\<rparr>)
     = world0\<lparr>disk := movieDisk(''m_track1_enhanced.opus'' \<mapsto> Node ''old'' True),
              stdout := [skipMessage track51], wg := 0\<rparr>"
proof -
  have i: "Index track51 = ''1''" by (simp add: track51_def)
  have e: "events (processTrack engineOk ''m.mkv'' track51 (world0\<lparr>wg := 2\<rparr>))
             = [Exec ''ffmpeg'' (workerArgs ''m.mkv'' track51)]"
    and d: "osStat (disk (processTrack engineOk ''m.mkv'' track51 (world0\<lparr>wg := 2\<rparr>)))
              ''m_track1_enhanced.opus'' = None"
    by (simp_all add: processTrack_unfold paths osStat_def world0_def movieDisk_def engineOk_def
        ffmpegOk_def)
  have s0: "stdout world0 = []"
    by (simp_all add: world0_def)
  have p: "osStat (movieDisk(''m_track1_enhanced.opus'' \<mapsto> Node ''old'' True))
             ''m_track1_enhanced.opus'' = None"
    by (simp add: osStat_def)
  show ?thesis
    using C4_worker_idempotent [of "world0\<lparr>wg := 2\<rparr>" "''m.mkv''" track51 engineOk]
      C4_worker_idempotent [of "world0\<lparr>disk := movieDisk(''m_track1_enhanced.opus'' \<mapsto> Node ''old'' True), wg := 1\<rparr>"
        "''m.mkv''" track51 engineOk]
    by (simp add: paths(1) i e d p s0)
qed



text \<open>
  C6. When the mux invocation fails (it exits non-zero, or cannot start),
  \<open>mergeTracks\<close> returns the tool invocation error that carries the captured standard
  error; \<open>main\<close> prints it and exits with status 1; the mux invocation is the last
  event of the run, so cleanup attempts no deletion; and every side-car path of the
  catalog holds after the run what it held before the remux attempt. (The engine
  writes no file but its output path.)
\<close>

theorem C6_mux_failure:
  assumes "2 \<le> length Args"
      and "extractTrackInfo E (Args ! 1) w = (Inr tracks, w1)"
      and "w2 = fanOut E (Args ! 1) tracks (w1\<lparr>wg := 0\<rparr>)"
      and "r = ffmpeg E (mergeArgs (Args ! 1) (TrimSuffix (Args ! 1) ''.mkv'' @ ''_enhanced.mkv'') tracks) (disk w2)"
      and "runErr r = Some err"
  shows "fst (mergeTracks E (Args ! 1) (TrimSuffix (Args ! 1) ''.mkv'' @ ''_enhanced.mkv'') tracks w2)
           = Some (ToolInvocationError Ffmpeg err (stderrText r)) \<and>
         (\<exists>w'. main E Args w = Some (1, w') \<and>
            last (stdout w') =
              ''Error merging tracks: '' @ Error (ToolInvocationError Ffmpeg err (stderrText r)) @ ''\<newline>'' \<and>
            events w' = events w2 @ [Exec ''ffmpeg''
               (mergeArgs (Args ! 1) (TrimSuffix (Args ! 1) ''.mkv'' @ ''_enhanced.mkv'') tracks)] \<and>
            (\<forall>t \<in> set tracks.
               disk w' (enhancedFile (Args ! 1) t) = disk w2 (enhancedFile (Args ! 1) t)))"
proof -
  let ?out = "TrimSuffix (Args ! 1) ''.mkv'' @ ''_enhanced.mkv''"
  let ?m = "mergeTracks E (Args ! 1) ?out tracks w2"
  let ?e = "ToolInvocationError Ffmpeg err (stderrText r)"
  have f: "fst ?m = Some ?e"
    using assms(4,5) by (simp add: fst_mergeTracks)
  have "?m = (Some ?e, snd ?m)"
    using f by (metis prod.collapse)
  then have m: "main E Args w = Some (1, Println (snd ?m) (''Error merging tracks: '' @ Error ?e))"
    unfolding assms(3) by (rule main_merge_failed [OF assms(1,2)])
  have d: "\<forall>t \<in> set tracks.
             disk (snd ?m) (enhancedFile (Args ! 1) t) = disk w2 (enhancedFile (Args ! 1) t)"
    by (simp add: disk_mergeTracks enhancedFile_not_output)
  have "last (stdout (Println (snd ?m) (''Error merging tracks: '' @ Error ?e))) =
          ''Error merging tracks: '' @ Error ?e @ ''\<newline>''"
    by (simp add: Println_def)
  moreover have "events (Println (snd ?m) (''Error merging tracks: '' @ Error ?e)) =
      events w2 @ [Exec ''ffmpeg'' (mergeArgs (Args ! 1) ?out tracks)]"
    by (simp add: Println_def events_mergeTracks)
  moreover have "\<forall>t \<in> set tracks.
      disk (Println (snd ?m) (''Error merging tracks: '' @ Error ?e)) (enhancedFile (Args ! 1) t)
        = disk w2 (enhancedFile (Args ! 1) t)"
    using d by (simp add: Println_def)
  ultimately show ?thesis
    using f m by blast
qed

text \<open>
  A run with two tracks whose mux invocation exits with status 1: both side-cars are
  still on the disk, and no deletion was attempted.
\<close>

theorem C6_mux_failure_witness:
  "\<exists>w'. main engineMuxFails [''prog'', ''m.mkv''] world0 = Some (1, w') \<and>
      last (stdout w') =
        ''Error merging tracks: ffmpeg command failed: exit status 1\<newline>stderr:\<newline>Conversion failed!\<newline>\<newline>'' \<and>
      events w' =
        [Exec ''ffprobe'' (probeArgs ''m.mkv''),
         Exec ''ffmpeg'' (workerArgs ''m.mkv'' track51),
         Exec ''ffmpeg'' (workerArgs ''m.mkv'' track71),
         Exec ''ffmpeg'' (mergeArgs ''m.mkv'' ''m_enhanced.mkv'' [track51, track71])] \<and>
      disk w' ''m_track1_enhanced.opus'' = Some (Node ''data'' True) \<and>
      disk w' ''m_track2_enhanced.opus'' = Some (Node ''data'' True)"
proof -
  define w1 where "w1 = world0\<lparr>events := [Exec ''ffprobe'' (probeArgs ''m.mkv'')]\<rparr>"
  define w2 where "w2 = fanOut engineMuxFails ''m.mkv'' [track51, track71] (w1\<lparr>wg := 0\<rparr>)"
  define r where "r = ffmpeg engineMuxFails
     (mergeArgs ''m.mkv'' (TrimSuffix ''m.mkv'' ''.mkv'' @ ''_enhanced.mkv'') [track51, track71]) (disk w2)"
  have x: "extractTrackInfo engineMuxFails ([''prog'', ''m.mkv''] ! 1) world0 = (Inr [track51, track71], w1)"
    by (simp add: extractTrackInfo_unfold engineMuxFails_def probeOk_def world0_fields
        movieDisk_at parse_probeOk w1_def)
  have f: "ffmpeg engineMuxFails (workerArgs ''m.mkv'' t) d = ffmpegOk (workerArgs ''m.mkv'' t) d"
    if "t = track51 \<or> t = track71" for t d
    using that by (auto simp: engineMuxFails_def last_workerArgs paths)
  have e2: "events w2 = [Exec ''ffprobe'' (probeArgs ''m.mkv''),
         Exec ''ffmpeg'' (workerArgs ''m.mkv'' track51),
         Exec ''ffmpeg'' (workerArgs ''m.mkv'' track71)]"
    and d2: "disk w2 ''m_track1_enhanced.opus'' = Some (Node ''data'' True)"
            "disk w2 ''m_track2_enhanced.opus'' = Some (Node ''data'' True)"
    by (simp_all add: w2_def w1_def processTrack_unfold f ffmpegOk_def paths osStat_def
        world0_fields movieDisk_at)
  have r: "r = ffmpegFailed ''Conversion failed!\<newline>''"
    by (simp add: r_def engineMuxFails_def last_mergeArgs paths(1))
  have h: "runErr r = Some ''exit status 1''" "stderrText r = ''Conversion failed!\<newline>''"
    by (simp_all add: r runErr_def ffmpegFailed_def)
  from C6_mux_failure [OF args1(2) x, of w2 r "''exit status 1''"] w2_def r_def h
  obtain w' where
    w': "main engineMuxFails [''prog'', ''m.mkv''] world0 = Some (1, w')"
        "last (stdout w') = ''Error merging tracks: ''
           @ Error (ToolInvocationError Ffmpeg ''exit status 1'' (stderrText r)) @ ''\<newline>''"
        "events w' = events w2 @ [Exec ''ffmpeg''
           (mergeArgs ([''prog'', ''m.mkv''] ! 1)
              (TrimSuffix ([''prog'', ''m.mkv''] ! 1) ''.mkv'' @ ''_enhanced.mkv'') [track51, track71])]"
        "\<forall>t \<in> set [track51, track71].
           disk w' (enhancedFile ([''prog'', ''m.mkv''] ! 1) t)
             = disk w2 (enhancedFile ([''prog'', ''m.mkv''] ! 1) t)"
    unfolding args1(1) by auto
  have "last (stdout w') =
        ''Error merging tracks: ffmpeg command failed: exit status 1\<newline>stderr:\<newline>Conversion failed!\<newline>\<newline>''"
    using w'(2) by (simp add: h)
  moreover have "events w' =
        [Exec ''ffprobe'' (probeArgs ''m.mkv''),
         Exec ''ffmpeg'' (workerArgs ''m.mkv'' track51),
         Exec ''ffmpeg'' (workerArgs ''m.mkv'' track71),
         Exec ''ffmpeg'' (mergeArgs ''m.mkv'' ''m_enhanced.mkv'' [track51, track71])]"
    using w'(3) by (simp add: e2 paths(1))
  moreover have "disk w' ''m_track1_enhanced.opus'' = Some (Node ''data'' True)"
    "disk w' ''m_track2_enhanced.opus'' = Some (Node ''data'' True)"
    using w'(4) by (simp_all add: paths d2)
  ultimately show ?thesis
    using w'(1) by blast
qed

text \<open>
  C7. Cleanup deletes the side-car files in catalog order and stops at the first
  deletion that fails. For a catalog \<open>pre @ track # post\<close> whose indexes up to \<open>track\<close>
  are distinct, where the side-cars of \<open>pre\<close> can be deleted and the deletion of the
  side-car of \<open>track\<close> fails with \<open>e\<close>: cleanup returns that failure; the deletions it
  attempted are those of \<open>pre\<close> and of \<open>track\<close>, in order, and none of \<open>post\<close>; the
  side-cars of \<open>pre\<close> are gone; and every other path, the side-cars of \<open>post\<close>
  included, holds what it held before.
\<close>

theorem C7_cleanup_stops:
  assumes "distinct (map Index (pre @ [track]))"
      and "\<forall>u \<in> set pre. fst (osRemove (disk w) (enhancedFile inputFile u)) = None"
      and "fst (osRemove (disk w) (enhancedFile inputFile track)) = Some e"
  shows "fst (removeTemporaryFiles inputFile (pre @ track # post) w)
           = Some (PathError ''remove'' (enhancedFile inputFile track) e) \<and>
         events (snd (removeTemporaryFiles inputFile (pre @ track # post) w))
           = events w @ map (\<lambda>u. Remove (enhancedFile inputFile u)) (pre @ [track]) \<and>
         (\<forall>u \<in> set pre.
            disk (snd (removeTemporaryFiles inputFile (pre @ track # post) w))
              (enhancedFile inputFile u) = None) \<and>
         (\<forall>q. q \<notin> set (map (enhancedFile inputFile) pre) \<longrightarrow>
            disk (snd (removeTemporaryFiles inputFile (pre @ track # post) w)) q = disk w q)"
  using assms
proof (induction pre arbitrary: w)
  case Nil
  then show ?case
    by (simp add: removeTemporaryFiles_Cons osRemove_failed_disk)
next
  case (Cons a pre)
  let ?pa = "enhancedFile inputFile a"
  define w1 where "w1 = w\<lparr>disk := snd (osRemove (disk w) ?pa),
                 events := events w @ [Remove ?pa],
                 stdout := stdout w @ [removedMessage ?pa]\<rparr>"
  let ?r = "removeTemporaryFiles inputFile (pre @ track # post) w1"
  have ok: "fst (osRemove (disk w) ?pa) = None"
    using Cons.prems(2) by simp
  have step: "removeTemporaryFiles inputFile ((a # pre) @ track # post) w = ?r"
    by (simp add: removeTemporaryFiles_Cons ok w1_def)
  have d1: "disk w1 = (disk w)(?pa := None)"
    by (simp add: w1_def osRemove_ok_disk [OF ok])
  have e1: "events w1 = events w @ [Remove ?pa]"
    by (simp add: w1_def)
  have ne: "\<forall>u \<in> set (pre @ [track]). enhancedFile inputFile u \<noteq> ?pa"
    using Cons.prems(1) by (auto simp: enhancedFile_inj image_iff)
  have h1: "distinct (map Index (pre @ [track]))"
    using Cons.prems(1) by simp
  have h2: "\<forall>u \<in> set pre. fst (osRemove (disk w1) (enhancedFile inputFile u)) = None"
    using Cons.prems(2) ne by (simp add: w1_def osRemove_other)
  have h3: "fst (osRemove (disk w1) (enhancedFile inputFile track)) = Some e"
    using Cons.prems(3) ne by (simp add: w1_def osRemove_other)
  note IH = Cons.IH [OF h1 h2 h3]
  have c1: "fst ?r = Some (PathError ''remove'' (enhancedFile inputFile track) e)"
    using IH by blast
  have c2: "events (snd ?r) =
              events w @ map (\<lambda>u. Remove (enhancedFile inputFile u)) ((a # pre) @ [track])"
    using IH by (simp add: e1)
  have c3: "\<forall>u \<in> set pre. disk (snd ?r) (enhancedFile inputFile u) = None"
    using IH by blast
  have c4: "\<forall>q. q \<notin> set (map (enhancedFile inputFile) pre) \<longrightarrow> disk (snd ?r) q = disk w1 q"
    using IH by blast
  have c5: "disk (snd ?r) ?pa = None"
  proof (cases "?pa \<in> set (map (enhancedFile inputFile) pre)")
    case True
    then show ?thesis using c3 by auto
  next
    case False
    then show ?thesis using c4 by (simp add: d1)
  qed
  have c6: "\<forall>q. q \<notin> set (map (enhancedFile inputFile) (a # pre)) \<longrightarrow> disk (snd ?r) q = disk w q"
    using c4 by (simp add: d1)
  show ?case
    unfolding step using c1 c2 c3 c5 c6 by simp
qed

text \<open>
  Three side-cars, the second of which cannot be removed: the first is deleted, the
  failure of the second is returned, and the third is still on the disk.
\<close>

theorem C7_cleanup_stops_witness:
  "fst (removeTemporaryFiles ''m.mkv'' [track51, track71, trackWide] world3)
     = Some (PathError ''remove'' ''m_track2_enhanced.opus'' EACCES) \<and>
   events (snd (removeTemporaryFiles ''m.mkv'' [track51, track71, trackWide] world3))
     = [Remove ''m_track1_enhanced.opus'', Remove ''m_track2_enhanced.opus''] \<and>
   disk (snd (removeTemporaryFiles ''m.mkv'' [track51, track71, trackWide] world3))
     ''m_track1_enhanced.opus'' = None \<and>
   disk (snd (removeTemporaryFiles ''m.mkv'' [track51, track71, trackWide] world3))
     ''m_track3_enhanced.opus'' = Some (Node ''third'' True)"
proof -
  have h1: "distinct (map Index ([track51] @ [track71]))"
    by (simp add: track51_def track71_def)
  have h2: "\<forall>u \<in> set [track51]. fst (osRemove (disk world3) (enhancedFile ''m.mkv'' u)) = None"
    by (simp add: paths osRemove_def world3_def sideCarDisk_def)
  have h3: "fst (osRemove (disk world3) (enhancedFile ''m.mkv'' track71)) = Some EACCES"
    by (simp add: paths osRemove_def world3_def sideCarDisk_def)
  have d: "disk world3 ''m_track3_enhanced.opus'' = Some (Node ''third'' True)"
    "events world3 = []"
    by (simp_all add: world3_def sideCarDisk_def)
  show ?thesis
    using C7_cleanup_stops [OF h1 h2 h3, of "[trackWide]"]
    by (simp add: paths d)
qed

text \<open>
  C8. A cleanup failure after a successful remux does not change the outcome of the
  run: when the catalog is extracted, the mux invocation succeeds and a side-car
  deletion then fails, \<open>main\<close> still prints the output file path and exits with
  status 0.
\<close>

theorem C8_cleanup_failure_is_success:
  assumes "2 \<le> length Args"
      and "extractTrackInfo E (Args ! 1) w = (Inr tracks, w1)"
      and "mergeTracks E (Args ! 1) (TrimSuffix (Args ! 1) ''.mkv'' @ ''_enhanced.mkv'') tracks
             (fanOut E (Args ! 1) tracks (w1\<lparr>wg := 0\<rparr>)) = (None, w3)"
      and "removeTemporaryFiles (Args ! 1) tracks w3 = (Some e, w4)"
  shows "main E Args w =
           Some (0, Println w4 (''Enhanced MKV generated: ''
                                  @ TrimSuffix (Args ! 1) ''.mkv'' @ ''_enhanced.mkv''))"
  using main_merged [OF assms(1,2,3)] assms(4) by simp

text \<open>
  A run on a disk that holds a side-car that cannot be removed: the deletion fails with
  \<open>EACCES\<close>, the output path is printed last, and the exit status is 0.
\<close>

theorem C8_cleanup_failure_is_success_witness:
  "fst (removeTemporaryFiles ''m.mkv'' [track51, track71]
          (snd (mergeTracks engineOk ''m.mkv'' ''m_enhanced.mkv'' [track51, track71]
                  (fanOut engineOk ''m.mkv'' [track51, track71]
                     (lockedWorld\<lparr>events := [Exec ''ffprobe'' (probeArgs ''m.mkv'')],
                                  wg := 0\<rparr>)))))
     = Some (PathError ''remove'' ''m_track1_enhanced.opus'' EACCES) \<and>
   (\<exists>w'. main engineOk [''prog'', ''m.mkv''] lockedWorld = Some (0, w') \<and>
      last (stdout w') = ''Enhanced MKV generated: m_enhanced.mkv\<newline>'' \<and>
      disk w' ''m_track1_enhanced.opus'' = Some (Node ''old'' False))"
proof -
  define w1 where "w1 = lockedWorld\<lparr>events := [Exec ''ffprobe'' (probeArgs ''m.mkv'')]\<rparr>"
  define w2 where "w2 = fanOut engineOk ''m.mkv'' [track51, track71] (w1\<lparr>wg := 0\<rparr>)"
  define w3 where "w3 = snd (mergeTracks engineOk ''m.mkv'' ''m_enhanced.mkv'' [track51, track71] w2)"
  define w4 where "w4 = snd (removeTemporaryFiles ''m.mkv'' [track51, track71] w3)"
  have x: "extractTrackInfo engineOk ([''prog'', ''m.mkv''] ! 1) lockedWorld
             = (Inr [track51, track71], w1)"
    by (simp add: extractTrackInfo_unfold engineOk_def probeOk_def lockedWorld_fields
        movieDisk_at parse_probeOk w1_def)
  have w10: "w1\<lparr>wg := 0\<rparr> = w1"
    by (simp add: w1_def lockedWorld_def world0_def)
  have d2: "disk w2 ''m_track1_enhanced.opus'' = Some (Node ''old'' False)"
    by (simp add: w2_def w1_def processTrack_unfold engineOk_def ffmpegOk_def paths osStat_def
        lockedWorld_fields movieDisk_at)
  have m: "mergeTracks engineOk ''m.mkv'' ''m_enhanced.mkv'' [track51, track71] w2 = (None, w3)"
    using fst_mergeTracks [of engineOk "''m.mkv''" "''m_enhanced.mkv''" "[track51, track71]" w2]
    by (simp add: w3_def engineOk_def ffmpegOk_def runErr_def prod_eq_iff)
  have d3: "disk w3 ''m_track1_enhanced.opus'' = Some (Node ''old'' False)"
    using disk_mergeTracks [of "''m_track1_enhanced.opus''" "''m_enhanced.mkv''" engineOk "''m.mkv''"
        "[track51, track71]" w2]
    by (simp add: w3_def d2)
  have rm: "osRemove (disk w3) ''m_track1_enhanced.opus'' = (Some EACCES, disk w3)"
    by (simp add: osRemove_def d3)
  have r: "removeTemporaryFiles ''m.mkv'' [track51, track71] w3
             = (Some (PathError ''remove'' ''m_track1_enhanced.opus'' EACCES), w4)"
    by (simp add: w4_def removeTemporaryFiles_Cons paths rm)
  have d4: "disk w4 ''m_track1_enhanced.opus'' = Some (Node ''old'' False)"
    by (simp add: w4_def removeTemporaryFiles_Cons paths rm d3)
  have out: "TrimSuffix ''m.mkv'' ''.mkv'' @ ''_enhanced.mkv'' = ''m_enhanced.mkv''"
    by (simp add: paths(1))
  have "main engineOk [''prog'', ''m.mkv''] lockedWorld =
          Some (0, Println w4 (''Enhanced MKV generated: ''
                     @ TrimSuffix ([''prog'', ''m.mkv''] ! 1) ''.mkv'' @ ''_enhanced.mkv''))"
  proof (rule C8_cleanup_failure_is_success [OF args1(2) x])
    show "mergeTracks engineOk ([''prog'', ''m.mkv''] ! 1)
            (TrimSuffix ([''prog'', ''m.mkv''] ! 1) ''.mkv'' @ ''_enhanced.mkv'') [track51, track71]
            (fanOut engineOk ([''prog'', ''m.mkv''] ! 1) [track51, track71] (w1\<lparr>wg := 0\<rparr>))
          = (None, w3)"
      unfolding out args1(1) w2_def [symmetric] by (rule m)
    show "removeTemporaryFiles ([''prog'', ''m.mkv''] ! 1) [track51, track71] w3
          = (Some (PathError ''remove'' ''m_track1_enhanced.opus'' EACCES), w4)"
      unfolding args1(1) by (rule r)
  qed
  then have "main engineOk [''prog'', ''m.mkv''] lockedWorld =
          Some (0, Println w4 ''Enhanced MKV generated: m_enhanced.mkv'')"
    by (simp add: paths(1))
  moreover have "last (stdout (Println w4 ''Enhanced MKV generated: m_enhanced.mkv''))
      = ''Enhanced MKV generated: m_enhanced.mkv\<newline>''"
    by (simp add: Println_def)
  moreover have "disk (Println w4 ''Enhanced MKV generated: m_enhanced.mkv'') ''m_track1_enhanced.opus''
      = Some (Node ''old'' False)"
    by (simp add: Println_def d4)
  moreover have "fst (removeTemporaryFiles ''m.mkv'' [track51, track71] w3)
     = Some (PathError ''remove'' ''m_track1_enhanced.opus'' EACCES)"
    by (simp only: r fst_conv)
  ultimately show ?thesis
    unfolding w3_def w2_def w1_def by simp
qed





end
